theory Spec2Isabelle
  imports Main "HOL-Library.Word" "HOL-Library.Char_ord" "HOL-Library.List_Lexorder"
begin

unbundle bit_operations_syntax

section \<open>Python values\<close>

text \<open>
  Every exception the modelled code can raise is a value. \<open>CommandFailed\<close> is the plain
  \<^verbatim>\<open>Exception(message)\<close> of \<^verbatim>\<open>run_command\<close>; \<open>StoreNotReachable\<close> carries the
  arguments it is raised with (the getter passes status code and text, the setter none).
  \<open>OtherError\<close> stands for any exception of a library call that the code never names.
\<close>

datatype error =
    InvalidGitRepositoryError
  | RepositoryNotSetup
  | RepositoryInvalidConfig
  | StoreNotReachable "(int \<times> string) option"
  | GitCommandError
  | CommandFailed string
  | TypeError
  | IndexError
  | AttributeError
  | RuntimeError
  | ValueError
  | OtherError string

text \<open>
  The values stored in a commit dictionary: a string (\<^verbatim>\<open>sha\<close>, \<^verbatim>\<open>remote\<close>, \<^verbatim>\<open>clone\<close>,
  \<^verbatim>\<open>date\<close>, \<^verbatim>\<open>author\<close>, \<^verbatim>\<open>host\<close>, \<^verbatim>\<open>user\<close>), a list of strings (\<^verbatim>\<open>changes\<close>) or the
  \<^verbatim>\<open>branches\<close> dictionary from \<^verbatim>\<open>local\<close>/\<^verbatim>\<open>remote\<close> to lists of branch names.
  A dictionary is an association list with distinct keys.
\<close>

datatype pyval =
    VStr string
  | VStrs "string list"
  | VDict "(string \<times> string list) list"

type_synonym dict = "(string \<times> pyval) list"

definition dget :: "('k \<times> 'v) list \<Rightarrow> 'k \<Rightarrow> 'v option" where
  "dget d k = map_of d k"

definition dhas :: "('k \<times> 'v) list \<Rightarrow> 'k \<Rightarrow> bool" where
  "dhas d k = (k \<in> fst ` set d)"

definition ddel :: "'k \<Rightarrow> ('k \<times> 'v) list \<Rightarrow> ('k \<times> 'v) list" where
  "ddel k d = filter (\<lambda>kv. fst kv \<noteq> k) d"

fun dset :: "'k \<Rightarrow> 'v \<Rightarrow> ('k \<times> 'v) list \<Rightarrow> ('k \<times> 'v) list" where
  "dset k v [] = [(k, v)]"
| "dset k v (kv # d) = (if fst kv = k then (k, v) # d else kv # dset k v d)"

section \<open>The JSONBin store (stores/jsonbin\_store.py)\<close>

text \<open>
  A response of the transport: the status code, the text, and what
  \<^verbatim>\<open>response.json()["record"]\<close> evaluates to (it raises on a body that is not the
  expected envelope).
\<close>

record response =
  status_code :: int
  resp_text :: string
  json_record :: "error + dict list"

datatype request =
    GET "(string \<times> string) list"
  | PUT "(string \<times> string) list" "dict list"

text \<open>
  What lies outside the process: the environment variables \<^verbatim>\<open>os.path.expandvars\<close> reads,
  and the server, which answers a request knowing the requests made before it;
  \<^verbatim>\<open>requests.get\<close>/\<^verbatim>\<open>requests.put\<close> may also raise (timeout, no connection).
\<close>

record net =
  expandvars :: "string \<Rightarrow> string"
  reply :: "request list \<Rightarrow> request \<Rightarrow> error + response"

text \<open>
  The resolved configuration of a repository, as far as the modelled code reads it:
  \<^verbatim>\<open>store_headers\<close> (a dictionary of strings), \<^verbatim>\<open>pull_threshold\<close>,
  \<^verbatim>\<open>track_uncommitted\<close> and \<^verbatim>\<open>modify_permissions\<close>; \<open>None\<close> is an absent key.
\<close>

record config =
  store_headers :: "(string \<times> string) list"
  pull_threshold :: "int option"
  track_uncommitted :: "bool option"
  modify_permissions :: "bool option"

text \<open>
  The mutable surroundings of a \<^verbatim>\<open>JsonbinStore\<close>: the file
  \<^verbatim>\<open>.gitalong/commits.json\<close> (contents and modification time, \<open>None\<close> when there is no
  file) and the requests sent so far, oldest first.
\<close>

record jsonbin =
  local_json :: "(dict list \<times> int) option"
  sent :: "request list"

definition expand_headers :: "net \<Rightarrow> (string \<times> string) list \<Rightarrow> (string \<times> string) list" where
  "expand_headers n hs = map (\<lambda>kv. (fst kv, expandvars n (snd kv))) hs"

text \<open>\<^verbatim>\<open>config.get("pull_threshold", 60)\<close>\<close>

definition get_pull_threshold :: "config \<Rightarrow> int" where
  "get_pull_threshold cfg = (case pull_threshold cfg of None \<Rightarrow> 60 | Some v \<Rightarrow> v)"

text \<open>
  Modelled from the spec: \<^verbatim>\<open>functions.modified_within\<close> is not among the sources. The
  spec's words are "serves from a local cache if the cache's age is below
  \<^verbatim>\<open>pull_threshold\<close>": the file exists and its age at time \<open>now\<close> is below \<open>seconds\<close>.
\<close>

definition modified_within :: "(dict list \<times> int) option \<Rightarrow> int \<Rightarrow> int \<Rightarrow> bool" where
  "modified_within f now seconds =
     (case f of None \<Rightarrow> False | Some cm \<Rightarrow> now - snd cm < seconds)"

text \<open>
  Modelled from the spec: \<^verbatim>\<open>Store._read_local_json\<close> and \<^verbatim>\<open>Store._write_local_json\<close>
  (store.py) are not among the sources. Per the spec the cache is "refreshed" with the
  ledger and served back: writing stores the records at the current time, reading gives
  the stored records (none when there is no file).
\<close>

definition read_local_json :: "jsonbin \<Rightarrow> dict list" where
  "read_local_json s = (case local_json s of None \<Rightarrow> [] | Some cm \<Rightarrow> fst cm)"

definition write_local_json :: "int \<Rightarrow> dict list \<Rightarrow> jsonbin \<Rightarrow> jsonbin" where
  "write_local_json now commits s = s\<lparr>local_json := Some (commits, now)\<rparr>"

text \<open>
  The getter of \<^verbatim>\<open>JsonbinStore.commits\<close>, called at time \<open>now\<close> on the store of a
  repository with configuration \<open>cfg\<close>.
\<close>

definition commits_get ::
  "net \<Rightarrow> int \<Rightarrow> config \<Rightarrow> jsonbin \<Rightarrow> (error + dict list) \<times> jsonbin" where
  "commits_get n now cfg s =
     (let headers = expand_headers n (store_headers cfg);
          threshold = get_pull_threshold cfg
      in if modified_within (local_json s) now threshold
         then (Inr (read_local_json s), s)
         else
           (let s1 = s\<lparr>sent := sent s @ [GET headers]\<rparr>
            in case reply n (sent s) (GET headers) of
                 Inl e \<Rightarrow> (Inl e, s1)
               | Inr r \<Rightarrow>
                   if status_code r = 200
                   then (case json_record r of
                           Inl e \<Rightarrow> (Inl e, s1)
                         | Inr commits \<Rightarrow> (Inr commits, write_local_json now commits s1))
                   else (Inl (StoreNotReachable (Some (status_code r, resp_text r))), s1)))"

text \<open>The setter of \<^verbatim>\<open>JsonbinStore.commits\<close>, called at time \<open>now\<close>.\<close>

definition commits_set ::
  "net \<Rightarrow> int \<Rightarrow> config \<Rightarrow> dict list \<Rightarrow> jsonbin \<Rightarrow> (error + unit) \<times> jsonbin" where
  "commits_set n now cfg commits s =
     (let headers = dset ''Content-Type'' ''application/json''
                      (expand_headers n (store_headers cfg));
          s1 = s\<lparr>sent := sent s @ [PUT headers commits]\<rparr>
      in case reply n (sent s) (PUT headers commits) of
           Inl e \<Rightarrow> (Inl e, s1)
         | Inr r \<Rightarrow>
             if status_code r = 200
             then (Inr (), write_local_json now commits s1)
             else (Inl (StoreNotReachable None), s1))"

section \<open>The world of batch.py\<close>

text \<open>
  A \<^verbatim>\<open>git.Commit\<close> object, as far as the code reads it: \<^verbatim>\<open>hexsha\<close>,
  \<^verbatim>\<open>repo.working_dir\<close>, the \<^verbatim>\<open>hexsha\<close> of each of \<^verbatim>\<open>parents\<close>, \<^verbatim>\<open>repo.remote().url\<close>,
  \<^verbatim>\<open>str(committed_datetime)\<close> and \<^verbatim>\<open>author.name\<close>. A last commit is either such an
  object or a dictionary (\<^verbatim>\<open>git.Commit | dict\<close>).
\<close>

record raw_commit =
  hexsha :: string
  commit_working_dir :: string
  parents :: "string list"
  commit_remote_url :: string
  committed_datetime :: string
  author_name :: string

datatype commit = Dict dict | Raw raw_commit

text \<open>
  A \<^verbatim>\<open>Repository\<close> (repository.py is not among the sources, so what batch.py reads
  from it is a field): \<^verbatim>\<open>working_dir\<close>, \<^verbatim>\<open>remote_url\<close>, \<^verbatim>\<open>config\<close>, the keys of
  \<^verbatim>\<open>context_dict\<close>, \<^verbatim>\<open>get_relative_path\<close> and \<^verbatim>\<open>get_commit_spread\<close> (the 8-bit mask
  of the spec). Its store is the JSONBin store kept in the world under the working
  directory.
\<close>

record repository =
  working_dir :: string
  remote_url :: string
  repo_config :: config
  context_dict :: "string list"
  get_relative_path :: "string \<Rightarrow> string"
  get_commit_spread :: "dict \<Rightarrow> 8 word"

datatype fetch_event = FetchOrigin string bool | FetchRemote string bool

text \<open>
  The state the code acts on and the answers of what it calls. Mutable: the stores (by
  working directory), the read-only flag of each file and the fetches attempted so far.
  Fixed during a call: the clock, the network, \<^verbatim>\<open>Repository(...)\<close> (which raises for a
  path outside a git repository or one where gitalong is not set up),
  \<^verbatim>\<open>os.path.exists\<close>, \<^verbatim>\<open>os.path.normpath\<close>, and the answers of git, which may depend on
  the fetches made before: \<^verbatim>\<open>pulled_within\<close> (functions.py is not among the sources), the
  outcome of a fetch (\<open>None\<close>: no exception), \<^verbatim>\<open>repo.git.log\<close>, \<^verbatim>\<open>repo.commit\<close>, and the
  exit of a child process (return code, stdout, stderr).
\<close>

record world =
  now :: int
  network :: net
  stores :: "string \<Rightarrow> jsonbin"
  read_only :: "string \<Rightarrow> bool"
  fetched :: "fetch_event list"
  find_repository :: "string \<Rightarrow> error + repository"
  path_exists :: "string \<Rightarrow> bool"
  normpath :: "string \<Rightarrow> string"
  pulled_within :: "fetch_event list \<Rightarrow> string \<Rightarrow> int \<Rightarrow> bool"
  fetch_outcome :: "fetch_event list \<Rightarrow> fetch_event \<Rightarrow> error option"
  git_log :: "fetch_event list \<Rightarrow> string \<Rightarrow> string list \<Rightarrow> error + string"
  repo_commit :: "fetch_event list \<Rightarrow> string \<Rightarrow> string \<Rightarrow> error + raw_commit"
  run_process :: "fetch_event list \<Rightarrow> string list \<Rightarrow> error + (int \<times> string \<times> string)"

section \<open>Strings\<close>

definition is_space :: "char \<Rightarrow> bool" where
  "is_space c = ((of_char c :: nat) \<in> {9, 10, 11, 12, 13, 28, 29, 30, 31, 32})"

text \<open>\<^verbatim>\<open>s.strip()\<close>\<close>

definition strip :: "string \<Rightarrow> string" where
  "strip s = rev (dropWhile is_space (rev (dropWhile is_space s)))"

text \<open>\<^verbatim>\<open>s.split(sep)\<close> for a separator of one character: never an empty list.\<close>

fun split :: "char \<Rightarrow> string \<Rightarrow> string list" where
  "split sep [] = [[]]"
| "split sep (c # cs) =
     (if c = sep then [] # split sep cs
      else (case split sep cs of [] \<Rightarrow> [[c]] | x # xs \<Rightarrow> (c # x) # xs))"

text \<open>\<^verbatim>\<open>s.replace(c, "")\<close> for a single character \<open>c\<close>.\<close>

definition remove_char :: "char \<Rightarrow> string \<Rightarrow> string" where
  "remove_char c s = filter (\<lambda>x. x \<noteq> c) s"

text \<open>\<^verbatim>\<open>s[0]\<close> on a \<^verbatim>\<open>str\<close>: a string of one character, IndexError on the empty string.\<close>

definition str_index0 :: "string \<Rightarrow> error + string" where
  "str_index0 s = (case s of [] \<Rightarrow> Inl IndexError | c # _ \<Rightarrow> Inr [c])"

text \<open>
  \<^verbatim>\<open>s.decode("utf-8")\<close> on a \<^verbatim>\<open>str\<close>: Python 3 strings have no \<^verbatim>\<open>decode\<close>, the attribute
  lookup raises. Likewise \<^verbatim>\<open>xs.replace(a, b)\<close> on a \<^verbatim>\<open>list\<close>.
\<close>

definition str_decode :: "string \<Rightarrow> error + string" where
  "str_decode s = Inl AttributeError"

definition list_replace :: "string list \<Rightarrow> char \<Rightarrow> error + string" where
  "list_replace xs c = Inl AttributeError"

text \<open>\<^verbatim>\<open>d.get(k, default)\<close>\<close>

definition dget_default :: "('k \<times> 'v) list \<Rightarrow> 'k \<Rightarrow> 'v \<Rightarrow> 'v" where
  "dget_default d k v = (case dget d k of None \<Rightarrow> v | Some x \<Rightarrow> x)"

text \<open>Error propagation: the rest of a block runs on the value of a call that returned.\<close>

definition bind :: "error + 'a \<Rightarrow> ('a \<Rightarrow> error + 'b) \<Rightarrow> error + 'b" where
  "bind m f = (case m of Inl e \<Rightarrow> Inl e | Inr x \<Rightarrow> f x)"

section \<open>run\_command\<close>

fun the_str :: "pyval \<Rightarrow> string option" where
  "the_str (VStr s) = Some s"
| "the_str (VStrs xs) = None"
| "the_str (VDict d) = None"

text \<open>
  \<^verbatim>\<open>asyncio.create_subprocess_exec(*args)\<close> raises TypeError for an argument that is not
  a string; otherwise the child runs, and a non-zero return code raises
  \<^verbatim>\<open>Exception(message)\<close>. The result is a \<^verbatim>\<open>str\<close>: \<^verbatim>\<open>stdout.decode().strip()\<close>.
\<close>

definition run_command :: "world \<Rightarrow> pyval list \<Rightarrow> error + string" where
  "run_command w args =
     (if \<exists>a \<in> set args. the_str a = None then Inl TypeError
      else case run_process w (fetched w) (map (\<lambda>a. the (the_str a)) args) of
             Inl e \<Rightarrow> Inl e
           | Inr (returncode, stdout, stderr) \<Rightarrow>
               if returncode \<noteq> 0
               then Inl (CommandFailed (''Command failed with error: '' @ strip stderr))
               else Inr (strip stdout))"

text \<open>
  \<^verbatim>\<open>await asyncio.gather(*tasks)\<close>: every coroutine of the list is run and the results
  come in the order of the list; the first exception is raised. A coroutine object that
  was awaited before cannot be awaited again (RuntimeError). A task is the argument
  list of its \<^verbatim>\<open>run_command\<close> call and whether it was awaited already.
\<close>

fun gather :: "world \<Rightarrow> (pyval list \<times> bool) list \<Rightarrow> error + string list" where
  "gather w [] = Inr []"
| "gather w (t # ts) =
     bind (if snd t then Inl RuntimeError else run_command w (fst t)) (\<lambda>r.
     bind (gather w ts) (\<lambda>rs. Inr (r # rs)))"

definition awaited :: "(pyval list \<times> bool) list \<Rightarrow> (pyval list \<times> bool) list" where
  "awaited ts = map (\<lambda>t. (fst t, True)) ts"

section \<open>get\_commits\_branches\<close>

definition branch_args :: "dict \<Rightarrow> bool \<Rightarrow> pyval list" where
  "branch_args commit remote =
     [VStr ''git'', VStr ''-C'', dget_default commit ''clone'' (VStr []),
      (if remote then VStr ''--remote'' else VStrs [])]
     @ [VStr ''--contains'', dget_default commit ''sha'' (VStr [])]"

text \<open>
  Lines 145 to 153, for one result of the gather: \<^verbatim>\<open>result[0]\<close>, \<^verbatim>\<open>.decode("utf-8")\<close>,
  \<^verbatim>\<open>.split\<close>, two \<^verbatim>\<open>.replace\<close> on the list, the second split, and the set of the last
  \<^verbatim>\<open>/\<close>-separated parts (listed without duplicates).
\<close>

definition branch_names_of :: "string \<Rightarrow> error + string list" where
  "branch_names_of result =
     bind (str_index0 result) (\<lambda>stdout.
     bind (str_decode stdout) (\<lambda>decoded.
     bind (list_replace (split CHR 0x0A decoded) CHR ''*'') (\<lambda>branches1.
     (let branches2 = remove_char CHR '' '' branches1;
          branches = (if branches2 \<noteq> [] then split CHR 0x0A branches2 else [])
      in Inr (remdups (map (\<lambda>branch. last (split CHR ''/'' branch)) branches))))))"

fun branch_names_all :: "string list \<Rightarrow> error + string list list" where
  "branch_names_all [] = Inr []"
| "branch_names_all (result # results) =
     bind (branch_names_of result) (\<lambda>names.
     bind (branch_names_all results) (\<lambda>rest. Inr (names # rest)))"

text \<open>
  The loop of \<^verbatim>\<open>get_commits_branches\<close>, with \<^verbatim>\<open>tasks\<close> and \<^verbatim>\<open>branches_list\<close> as
  accumulators: the gather and the loop over its results are inside the loop over the
  commits, as in the source.
\<close>

fun get_commits_branches_loop ::
  "world \<Rightarrow> bool \<Rightarrow> dict list \<Rightarrow> (pyval list \<times> bool) list \<Rightarrow> string list list
     \<Rightarrow> error + string list list" where
  "get_commits_branches_loop w remote [] tasks branches_list = Inr branches_list"
| "get_commits_branches_loop w remote (commit # commits) tasks branches_list =
     (let tasks1 = tasks @ [(branch_args commit remote, False)]
      in bind (gather w tasks1) (\<lambda>results.
         bind (branch_names_all results) (\<lambda>names.
         get_commits_branches_loop w remote commits (awaited tasks1) (branches_list @ names))))"

definition get_commits_branches :: "world \<Rightarrow> dict list \<Rightarrow> bool \<Rightarrow> error + string list list" where
  "get_commits_branches w commits remote = get_commits_branches_loop w remote commits [] []"

section \<open>get\_commit\_changes and get\_commits\_dicts\<close>

definition diff_args :: "raw_commit \<Rightarrow> pyval list" where
  "diff_args commit =
     (let args = [VStr ''git'', VStr ''-C'', VStr (commit_working_dir commit), VStr ''diff'',
                  VStr ''--numstat'', VStr ''--no-renames''];
          parent = (case parents commit of [] \<Rightarrow> [] | p # _ \<Rightarrow> p)
      in args
         @ (if parent \<noteq> [] then [VStr (hexsha commit @ ''^''), VStr parent]
            else [VStr (hexsha commit)])
         @ [VStr ''--''])"

text \<open>
  The first loop of \<^verbatim>\<open>get_commit_changes\<close>: a dictionary appends its \<^verbatim>\<open>changes\<close> to
  \<^verbatim>\<open>changes_list\<close> at once, a commit object appends a task.
\<close>

fun collect_changes :: "commit list \<Rightarrow> pyval list \<times> (pyval list \<times> bool) list" where
  "collect_changes [] = ([], [])"
| "collect_changes (Dict d # commits) =
     (dget_default d ''changes'' (VStrs []) # fst (collect_changes commits),
      snd (collect_changes commits))"
| "collect_changes (Raw c # commits) =
     (fst (collect_changes commits), (diff_args c, False) # snd (collect_changes commits))"

text \<open>Lines 205 and 206, for one result: \<^verbatim>\<open>result[0].decode("utf-8").split("\n")\<close>.\<close>

definition changes_of :: "string \<Rightarrow> error + pyval" where
  "changes_of result =
     bind (str_index0 result) (\<lambda>stdout.
     bind (str_decode stdout) (\<lambda>decoded. Inr (VStrs (split CHR 0x0A decoded))))"

fun changes_of_all :: "string list \<Rightarrow> error + pyval list" where
  "changes_of_all [] = Inr []"
| "changes_of_all (result # results) =
     bind (changes_of result) (\<lambda>changes.
     bind (changes_of_all results) (\<lambda>rest. Inr (changes # rest)))"

definition get_commit_changes :: "world \<Rightarrow> commit list \<Rightarrow> error + pyval list" where
  "get_commit_changes w commits =
     (let changes_list = fst (collect_changes commits);
          tasks = snd (collect_changes commits)
      in bind (gather w tasks) (\<lambda>results.
         bind (changes_of_all results) (\<lambda>changes. Inr (changes_list @ changes))))"

fun commit_dict :: "commit \<times> pyval \<Rightarrow> dict" where
  "commit_dict (Dict d, changes) = d"
| "commit_dict (Raw c, changes) =
     [(''sha'', VStr (hexsha c)),
      (''remote'', VStr (commit_remote_url c)),
      (''changes'', changes),
      (''date'', VStr (committed_datetime c)),
      (''author'', VStr (author_name c))]"

definition get_commits_dicts :: "world \<Rightarrow> commit list \<Rightarrow> error + dict list" where
  "get_commits_dicts w commits =
     bind (get_commit_changes w commits) (\<lambda>changes_list.
     Inr (map commit_dict (zip commits changes_list)))"

section \<open>get\_files\_last\_commits\<close>

definition get_repository_safe :: "world \<Rightarrow> string \<Rightarrow> error + repository option" where
  "get_repository_safe w filename =
     (case find_repository w filename of
        Inr r \<Rightarrow> Inr (Some r)
      | Inl e \<Rightarrow>
          if e = InvalidGitRepositoryError then Inr None
          else if e = RepositoryNotSetup then Inr None
          else Inl e)"

text \<open>Iterating over a value: a list gives its items, a string its characters, a dictionary its keys.\<close>

fun iter_pyval :: "pyval \<Rightarrow> string list" where
  "iter_pyval (VStrs xs) = xs"
| "iter_pyval (VStr s) = map (\<lambda>c. [c]) s"
| "iter_pyval (VDict d) = map fst d"

definition matching_changes :: "world \<Rightarrow> string \<Rightarrow> dict \<Rightarrow> string list" where
  "matching_changes w filename tracked_commit =
     filter (\<lambda>change. normpath w change = normpath w filename)
       (iter_pyval (dget_default tracked_commit ''changes'' (VStrs [])))"

text \<open>
  Lines 63 to 74, \<open>filename\<close> being the relative path of line 60: a record passing the
  two tests is appended once for each of its changes that matches (the \<^verbatim>\<open>continue\<close> of
  line 74 continues the inner loop).
\<close>

fun relevant_tracked_commits :: "world \<Rightarrow> repository \<Rightarrow> string \<Rightarrow> dict list \<Rightarrow> dict list" where
  "relevant_tracked_commits w r filename [] = []"
| "relevant_tracked_commits w r filename (tracked_commit # tracked_commits) =
     (if (\<not> (track_uncommitted (repo_config r) = Some True) \<and> \<not> dhas tracked_commit ''sha'')
         \<or> dget tracked_commit ''remote'' \<noteq> Some (VStr (remote_url r))
      then relevant_tracked_commits w r filename tracked_commits
      else map (\<lambda>change. tracked_commit) (matching_changes w filename tracked_commit)
           @ relevant_tracked_commits w r filename tracked_commits)"

text \<open>
  \<^verbatim>\<open>a < b\<close> on the keys of the sort, \<^verbatim>\<open>commit.get("date")\<close>: strings compare, lists of
  strings compare, anything else (\<^verbatim>\<open>None\<close> for a record without date, a dictionary, two
  different types) raises TypeError.
\<close>

fun py_lt :: "pyval option \<Rightarrow> pyval option \<Rightarrow> error + bool" where
  "py_lt (Some (VStr a)) (Some (VStr b)) = Inr (a < b)"
| "py_lt (Some (VStrs a)) (Some (VStrs b)) = Inr (a < b)"
| "py_lt a b = Inl TypeError"

text \<open>
  \<^verbatim>\<open>relevant_tracked_commits.sort(key=lambda commit: commit.get("date"))\<close>: the sort is
  stable and uses \<^verbatim>\<open><\<close> only; a list of fewer than two items is not compared at all.
\<close>

fun insert_by_date :: "dict \<Rightarrow> dict list \<Rightarrow> error + dict list" where
  "insert_by_date x [] = Inr [x]"
| "insert_by_date x (y # ys) =
     bind (py_lt (dget y ''date'') (dget x ''date'')) (\<lambda>lt.
     if lt then bind (insert_by_date x ys) (\<lambda>r. Inr (y # r)) else Inr (x # y # ys))"

fun sort_by_date :: "dict list \<Rightarrow> error + dict list" where
  "sort_by_date [] = Inr []"
| "sort_by_date (x # xs) = bind (sort_by_date xs) (\<lambda>sorted. insert_by_date x sorted)"

text \<open>
  Lines 59 to 77: the selected ledger record, \<open>None\<close> when no record is relevant
  (\<^verbatim>\<open>last_commit\<close> stays the empty dictionary).
\<close>

definition tracked_last_commit ::
  "world \<Rightarrow> repository \<Rightarrow> string \<Rightarrow> dict list \<Rightarrow> error + dict option" where
  "tracked_last_commit w r filename tracked_commits =
     (let relevant = relevant_tracked_commits w r filename tracked_commits
      in if relevant \<noteq> []
         then bind (sort_by_date relevant) (\<lambda>sorted. Inr (Some (last sorted)))
         else Inr None)"

text \<open>
  Equality of dictionaries does not look at the order of the keys.
  \<^verbatim>\<open>tracked_commits.remove(last_commit)\<close> removes the first equal item and raises
  ValueError when there is none.
\<close>

fun pyval_eq :: "pyval \<Rightarrow> pyval \<Rightarrow> bool" where
  "pyval_eq (VDict a) (VDict b) = (set a = set b)"
| "pyval_eq a b = (a = b)"

definition dict_eq :: "dict \<Rightarrow> dict \<Rightarrow> bool" where
  "dict_eq a b =
     (length a = length b
      \<and> (\<forall>kv \<in> set a. \<exists>kv' \<in> set b. fst kv = fst kv' \<and> pyval_eq (snd kv) (snd kv')))"

fun list_remove :: "dict \<Rightarrow> dict list \<Rightarrow> error + dict list" where
  "list_remove x [] = Inl ValueError"
| "list_remove x (y # ys) =
     (if dict_eq y x then Inr ys else bind (list_remove x ys) (\<lambda>r. Inr (y # r)))"

definition set_store :: "repository \<Rightarrow> jsonbin \<Rightarrow> world \<Rightarrow> world" where
  "set_store r s w = w\<lparr>stores := (stores w)(working_dir r := s)\<rparr>"

text \<open>
  Lines 85 to 91, for the selected record: the remote branches are asked for first; with
  a \<^verbatim>\<open>sha\<close> and a non-empty first answer the record leaves the ledger, the ledger is
  written, and the keys of \<^verbatim>\<open>context_dict\<close> are deleted from the record.
\<close>

definition self_heal ::
  "world \<Rightarrow> repository \<Rightarrow> dict list \<Rightarrow> dict \<Rightarrow> (error + dict) \<times> world" where
  "self_heal w r tracked_commits last_commit =
     (case get_commits_branches w [last_commit] True of
        Inl e \<Rightarrow> (Inl e, w)
      | Inr branches_list \<Rightarrow>
          if \<not> dhas last_commit ''sha'' then (Inr last_commit, w)
          else (case branches_list of
                  [] \<Rightarrow> (Inl IndexError, w)
                | branches # _ \<Rightarrow>
                    if branches = [] then (Inr last_commit, w)
                    else (case list_remove last_commit tracked_commits of
                            Inl e \<Rightarrow> (Inl e, w)
                          | Inr remaining \<Rightarrow>
                              (let res = commits_set (network w) (now w) (repo_config r)
                                           remaining (stores w (working_dir r));
                                   w1 = set_store r (snd res) w
                               in case fst res of
                                    Inl e \<Rightarrow> (Inl e, w1)
                                  | Inr u \<Rightarrow>
                                      (Inr (foldl (\<lambda>d key. ddel key d) last_commit
                                              (context_dict r)), w1)))))"

text \<open>
  Lines 97 to 101: both fetches are attempted in turn, the second only when the first
  did not raise; a GitCommandError is passed over, any other exception is raised.
\<close>

definition fetch_remotes :: "world \<Rightarrow> repository \<Rightarrow> bool \<Rightarrow> error option \<times> world" where
  "fetch_remotes w r prune =
     (let origin = FetchOrigin (working_dir r) prune;
          w1 = w\<lparr>fetched := fetched w @ [origin]\<rparr>
      in case fetch_outcome w (fetched w) origin of
           Some e \<Rightarrow> (if e = GitCommandError then None else Some e, w1)
         | None \<Rightarrow>
             (let remote = FetchRemote (working_dir r) prune;
                  w2 = w1\<lparr>fetched := fetched w1 @ [remote]\<rparr>
              in case fetch_outcome w (fetched w1) remote of
                   Some e \<Rightarrow> (if e = GitCommandError then None else Some e, w2)
                 | None \<Rightarrow> (None, w2)))"

definition log_args :: "string \<Rightarrow> string list" where
  "log_args filename =
     [''--all'', ''--remotes'', ''--pretty=format:'' @ [CHR 0x22] @ ''%H'' @ [CHR 0x22],
      ''--'', filename]"

text \<open>
  Lines 94 to 107, \<open>filename\<close> being the relative path: the fetch when the repository was
  not pulled within the threshold, then the first line of the log, quotes removed, as
  the revision of \<^verbatim>\<open>repo.commit\<close>. A commit object is never false, so \<^verbatim>\<open>or {}\<close> does not
  apply.
\<close>

definition history_last_commit ::
  "world \<Rightarrow> repository \<Rightarrow> string \<Rightarrow> bool \<Rightarrow> (error + commit) \<times> world" where
  "history_last_commit w r filename prune =
     (let threshold = get_pull_threshold (repo_config r);
          fetch = (if \<not> pulled_within w (fetched w) (working_dir r) threshold
                   then fetch_remotes w r prune else (None, w));
          w1 = snd fetch
      in case fst fetch of
           Some e \<Rightarrow> (Inl e, w1)
         | None \<Rightarrow>
             (case git_log w1 (fetched w1) (working_dir r) (log_args filename) of
                Inl e \<Rightarrow> (Inl e, w1)
              | Inr output \<Rightarrow>
                  (let file_commits = (if output \<noteq> []
                                       then split CHR 0x0A (remove_char CHR 0x22 output)
                                       else []);
                       sha = (case file_commits of [] \<Rightarrow> [] | x # _ \<Rightarrow> x)
                   in case repo_commit w1 (fetched w1) (working_dir r) sha of
                        Inl e \<Rightarrow> (Inl e, w1)
                      | Inr c \<Rightarrow> (Inr (Raw c), w1))))"

text \<open>The body of the loop over \<^verbatim>\<open>filenames\<close> (lines 48 to 109), for one file.\<close>

definition file_last_commit :: "world \<Rightarrow> bool \<Rightarrow> string \<Rightarrow> (error + commit) \<times> world" where
  "file_last_commit w prune filename =
     (case get_repository_safe w filename of
        Inl e \<Rightarrow> (Inl e, w)
      | Inr None \<Rightarrow> (Inr (Dict []), w)
      | Inr (Some r) \<Rightarrow>
          (let res = commits_get (network w) (now w) (repo_config r) (stores w (working_dir r));
               w1 = set_store r (snd res) w;
               relative = get_relative_path r filename
           in case fst res of
                Inl e \<Rightarrow> (Inl e, w1)
              | Inr tracked_commits \<Rightarrow>
                  (case tracked_last_commit w1 r relative tracked_commits of
                     Inl e \<Rightarrow> (Inl e, w1)
                   | Inr None \<Rightarrow> history_last_commit w1 r relative prune
                   | Inr (Some selected) \<Rightarrow>
                       (let healed = self_heal w1 r tracked_commits selected
                        in case fst healed of
                             Inl e \<Rightarrow> (Inl e, snd healed)
                           | Inr last_commit \<Rightarrow>
                               if last_commit = []
                               then history_last_commit (snd healed) r relative prune
                               else (Inr (Dict last_commit), snd healed)))))"

fun last_commits_loop :: "world \<Rightarrow> bool \<Rightarrow> string list \<Rightarrow> (error + commit list) \<times> world" where
  "last_commits_loop w prune [] = (Inr [], w)"
| "last_commits_loop w prune (filename # filenames) =
     (let first = file_last_commit w prune filename
      in case fst first of
           Inl e \<Rightarrow> (Inl e, snd first)
         | Inr last_commit \<Rightarrow>
             (let rest = last_commits_loop (snd first) prune filenames
              in case fst rest of
                   Inl e \<Rightarrow> (Inl e, snd rest)
                 | Inr last_commits \<Rightarrow> (Inr (last_commit # last_commits), snd rest)))"

text \<open>
  \<^verbatim>\<open>branches = d.setdefault("branches", {}); branches[k] = names\<close>, done only for a
  non-empty list of names; item assignment on a string or a list raises TypeError.
\<close>

definition annotate :: "string \<Rightarrow> string list \<Rightarrow> dict \<Rightarrow> error + dict" where
  "annotate k names d =
     (if names = [] then Inr d
      else case dget d ''branches'' of
             None \<Rightarrow> Inr (dset ''branches'' (VDict [(k, names)]) d)
           | Some (VDict b) \<Rightarrow> Inr (dset ''branches'' (VDict (dset k names b)) d)
           | Some (VStr s) \<Rightarrow> Inl TypeError
           | Some (VStrs xs) \<Rightarrow> Inl TypeError)"

fun annotate_all :: "(dict \<times> string list \<times> string list) list \<Rightarrow> error + dict list" where
  "annotate_all [] = Inr []"
| "annotate_all ((d, local_branches, remote_branches) # rest) =
     bind (annotate ''local'' local_branches d) (\<lambda>d1.
     bind (annotate ''remote'' remote_branches d1) (\<lambda>d2.
     bind (annotate_all rest) (\<lambda>ds. Inr (d2 # ds))))"

definition get_files_last_commits ::
  "world \<Rightarrow> string list \<Rightarrow> bool \<Rightarrow> (error + dict list) \<times> world" where
  "get_files_last_commits w filenames prune =
     (let looped = last_commits_loop w prune filenames;
          w1 = snd looped
      in case fst looped of
           Inl e \<Rightarrow> (Inl e, w1)
         | Inr last_commits \<Rightarrow>
             (bind (get_commits_dicts w1 last_commits) (\<lambda>last_commit_dicts.
              bind (get_commits_branches w1 last_commit_dicts False) (\<lambda>local_branches_list.
              bind (get_commits_branches w1 last_commit_dicts True) (\<lambda>remote_branches_list.
              annotate_all (zip last_commit_dicts
                             (zip local_branches_list remote_branches_list))))), w1))"

section \<open>claim\_files\<close>

text \<open>
  Modelled from the spec: enums.py is not among the sources. The spec lists the flags of
  \<^verbatim>\<open>CommitSpread\<close> as "an 8-bit mask, one flag per (ownership x locality) combination",
  in this order; each is one bit, the first the lowest.
\<close>

definition MINE_UNCOMMITTED :: "8 word" where "MINE_UNCOMMITTED = 1"
definition MINE_ACTIVE_BRANCH :: "8 word" where "MINE_ACTIVE_BRANCH = 2"
definition MINE_OTHER_BRANCH :: "8 word" where "MINE_OTHER_BRANCH = 4"
definition REMOTE_MATCHING_BRANCH :: "8 word" where "REMOTE_MATCHING_BRANCH = 8"
definition REMOTE_OTHER_BRANCH :: "8 word" where "REMOTE_OTHER_BRANCH = 16"
definition THEIR_OTHER_BRANCH :: "8 word" where "THEIR_OTHER_BRANCH = 32"
definition THEIR_MATCHING_BRANCH :: "8 word" where "THEIR_MATCHING_BRANCH = 64"
definition THEIR_UNCOMMITTED :: "8 word" where "THEIR_UNCOMMITTED = 128"

text \<open>
  Modelled from the spec: \<^verbatim>\<open>functions.set_read_only\<close> is not among the sources; the
  spec's permission toggler "sets a file read-only/writable".
\<close>

definition set_read_only :: "string \<Rightarrow> bool \<Rightarrow> world \<Rightarrow> world" where
  "set_read_only filename flag w = w\<lparr>read_only := (read_only w)(filename := flag)\<rparr>"

text \<open>Lines 263 to 270: the record reported as missing for a spread and a last commit.\<close>

definition missing_commit_of :: "8 word \<Rightarrow> dict \<Rightarrow> dict" where
  "missing_commit_of spread last_commit =
     (let is_local_commit = (spread AND MINE_ACTIVE_BRANCH = MINE_ACTIVE_BRANCH);
          is_uncommitted = (spread AND MINE_UNCOMMITTED = MINE_UNCOMMITTED)
      in if is_local_commit \<or> is_uncommitted then [] else last_commit)"

text \<open>
  Lines 260 to 275, for one file and the last commit found for it. The dictionary
  \<^verbatim>\<open>claimables_by_repositoy\<close> is filled and never read; it is left out.
\<close>

definition claim_file :: "world \<Rightarrow> string \<Rightarrow> dict \<Rightarrow> (error + dict) \<times> world" where
  "claim_file w filename last_commit =
     (case get_repository_safe w filename of
        Inl e \<Rightarrow> (Inl e, w)
      | Inr repository \<Rightarrow>
          (let permissions = (case repository of
                                None \<Rightarrow> None
                              | Some r \<Rightarrow> modify_permissions (repo_config r));
               spread = (case repository of
                           None \<Rightarrow> 0
                         | Some r \<Rightarrow> get_commit_spread r last_commit);
               missing_commit = missing_commit_of spread last_commit
           in (Inr missing_commit,
               if path_exists w filename \<and> missing_commit = [] \<and> permissions = Some True
               then set_read_only filename (missing_commit \<noteq> []) w
               else w)))"

fun claim_files :: "world \<Rightarrow> string list \<Rightarrow> bool \<Rightarrow> (error + dict list) \<times> world" where
  "claim_files w [] prune = (Inr [], w)"
| "claim_files w (filename # filenames) prune =
     (let found = get_files_last_commits w [filename] prune
      in case fst found of
           Inl e \<Rightarrow> (Inl e, snd found)
         | Inr last_commits \<Rightarrow>
             (case last_commits of
                [] \<Rightarrow> (Inl IndexError, snd found)
              | last_commit # _ \<Rightarrow>
                  (let claimed = claim_file (snd found) filename last_commit
                   in case fst claimed of
                        Inl e \<Rightarrow> (Inl e, snd claimed)
                      | Inr missing_commit \<Rightarrow>
                          (let rest = claim_files (snd claimed) filenames prune
                           in case fst rest of
                                Inl e \<Rightarrow> (Inl e, snd rest)
                              | Inr missing_commits \<Rightarrow>
                                  (Inr (missing_commit # missing_commits), snd rest)))))"

section \<open>Definitions for stating the claims\<close>




text \<open>
  A free spread mask in the words of the spec: the only bits set are \<^verbatim>\<open>MINE_*\<close> bits, or
  no bit is set.
\<close>

definition spec_free :: "8 word \<Rightarrow> bool" where
  "spec_free spread =
     (spread AND NOT (MINE_UNCOMMITTED OR MINE_ACTIVE_BRANCH OR MINE_OTHER_BRANCH) = 0)"

text \<open>
  Permission modification is enabled for a file: its repository is found and the
  \<^verbatim>\<open>modify_permissions\<close> of its configuration is true.
\<close>

definition permissions_enabled :: "world \<Rightarrow> string \<Rightarrow> bool" where
  "permissions_enabled w filename =
     (case get_repository_safe w filename of
        Inr (Some r) \<Rightarrow> modify_permissions (repo_config r) = Some True
      | _ \<Rightarrow> False)"

text \<open>Two worlds with the same files, permissions and repositories.\<close>

definition same_files :: "world \<Rightarrow> world \<Rightarrow> bool" where
  "same_files w w' =
     (read_only w' = read_only w \<and> path_exists w' = path_exists w
      \<and> find_repository w' = find_repository w)"

section \<open>Concrete stores, repositories and worlds\<close>

text \<open>
  A server that answers the first GET with a ledger of one record and every later GET
  with 404, and accepts a PUT of fewer than two records only.
\<close>

definition server0 :: "request list \<Rightarrow> request \<Rightarrow> error + response" where
  "server0 past rq =
     (case rq of
        GET hs \<Rightarrow>
          if past = []
          then Inr \<lparr>status_code = 200, resp_text = ''ok'',
                    json_record = Inr [[(''sha'', VStr ''abc'')]]\<rparr>
          else Inr \<lparr>status_code = 404, resp_text = ''Bin not found'',
                    json_record = Inl (OtherError ''KeyError'')\<rparr>
      | PUT hs cs \<Rightarrow>
          if length cs < 2
          then Inr \<lparr>status_code = 200, resp_text = ''ok'', json_record = Inr cs\<rparr>
          else Inr \<lparr>status_code = 401, resp_text = ''Unauthorized'',
                    json_record = Inl (OtherError ''KeyError'')\<rparr>)"

definition net0 :: net where
  "net0 = \<lparr>expandvars = (\<lambda>v. v), reply = server0\<rparr>"

definition config0 :: config where
  "config0 = \<lparr>store_headers = [(''X-Master-Key'', ''$KEY'')], pull_threshold = None,
              track_uncommitted = None, modify_permissions = Some True\<rparr>"

definition store0 :: jsonbin where
  "store0 = \<lparr>local_json = Some ([[(''sha'', VStr ''old'')]], 100), sent = []\<rparr>"

definition store1 :: jsonbin where
  "store1 = \<lparr>local_json = Some ([[(''sha'', VStr ''old'')]], 100), sent = [GET []]\<rparr>"

text \<open>
  \<^verbatim>\<open>posixpath.normpath\<close>, the \<^verbatim>\<open>os.path.normpath\<close> of a POSIX system, for the concrete
  worlds below.
\<close>

definition norm_step :: "bool \<Rightarrow> string list \<Rightarrow> string \<Rightarrow> string list" where
  "norm_step initial_slashes new_comps component =
     (if component = [] \<or> component = ''.'' then new_comps
      else if component \<noteq> ''..'' \<or> (\<not> initial_slashes \<and> new_comps = [])
              \<or> (new_comps \<noteq> [] \<and> last new_comps = ''..'')
      then new_comps @ [component]
      else if new_comps \<noteq> [] then butlast new_comps
      else new_comps)"

fun join_slash :: "string list \<Rightarrow> string" where
  "join_slash [] = []"
| "join_slash [x] = x"
| "join_slash (x # y # ys) = x @ ''/'' @ join_slash (y # ys)"

definition posix_normpath :: "string \<Rightarrow> string" where
  "posix_normpath path =
     (if path = [] then ''.''
      else
        (let initial_slashes = (take 1 path = ''/'');
             slashes = (if take 2 path = ''//'' \<and> take 3 path \<noteq> ''///'' then 2
                        else if initial_slashes then 1 else 0);
             comps = foldl (norm_step initial_slashes) [] (split CHR ''/'' path);
             joined = replicate slashes CHR ''/'' @ join_slash comps
         in if joined = [] then ''.'' else joined))"

text \<open>
  A repository at \<^verbatim>\<open>/work/game\<close> with remote \<^verbatim>\<open>origin-url\<close>. Its spread oracle gives
  no bit for the empty record, calls a record of author \<^verbatim>\<open>me\<close> mine on the active
  branch, and every other record theirs on the matching branch.
\<close>

definition spread0 :: "dict \<Rightarrow> 8 word" where
  "spread0 c =
     (if c = [] then 0
      else if dget c ''author'' = Some (VStr ''me'') then 2
      else 64)"

definition repo0 :: repository where
  "repo0 = \<lparr>working_dir = ''/work/game'', remote_url = ''origin-url'', repo_config = config0,
            context_dict = [''host'', ''user'', ''clone''],
            get_relative_path =
              (\<lambda>p. if take 11 p = ''/work/game/'' then drop 11 p else p),
            get_commit_spread = spread0\<rparr>"

text \<open>A second repository, at \<^verbatim>\<open>/work/docs\<close>, that does not modify permissions.\<close>

definition repo1 :: repository where
  "repo1 = \<lparr>working_dir = ''/work/docs'', remote_url = ''docs-url'',
            repo_config = config0\<lparr>modify_permissions := Some False\<rparr>,
            context_dict = [''host'', ''user'', ''clone''],
            get_relative_path =
              (\<lambda>p. if take 11 p = ''/work/docs/'' then drop 11 p else p),
            get_commit_spread = spread0\<rparr>"

text \<open>The ledger of the examples.\<close>

definition record_other_remote :: dict where
  "record_other_remote =
     [(''sha'', VStr ''f00''), (''remote'', VStr ''other-url''),
      (''changes'', VStrs [''art/model.fbx'']), (''date'', VStr ''2024-05-09'')]"

definition record_claim :: dict where
  "record_claim =
     [(''remote'', VStr ''origin-url''), (''clone'', VStr ''/home/ann/game''),
      (''changes'', VStrs [''art/model.fbx'']), (''date'', VStr ''2024-05-08'')]"

definition record_old :: dict where
  "record_old =
     [(''sha'', VStr ''aaa''), (''remote'', VStr ''origin-url''),
      (''changes'', VStrs [''art/tree.fbx'', ''art//model.fbx'']),
      (''date'', VStr ''2024-05-01''), (''author'', VStr ''bob'')]"

definition record_abc :: dict where
  "record_abc =
     [(''sha'', VStr ''abc''), (''remote'', VStr ''origin-url''),
      (''clone'', VStr ''/home/bob/game''),
      (''changes'', VStrs [''./art/model.fbx'']),
      (''date'', VStr ''2024-05-03''), (''author'', VStr ''bob'')]"

definition record_unrelated :: dict where
  "record_unrelated =
     [(''sha'', VStr ''bbb''), (''remote'', VStr ''origin-url''),
      (''changes'', VStrs [''art/tree.fbx'']), (''date'', VStr ''2024-05-07'')]"

definition record_active :: dict where
  "record_active =
     [(''sha'', VStr ''eee''), (''remote'', VStr ''origin-url''),
      (''changes'', VStrs [''art/model.fbx'']),
      (''date'', VStr ''2024-05-05''), (''author'', VStr ''me'')]"

definition ledger0 :: "dict list" where
  "ledger0 = [record_other_remote, record_claim, record_abc, record_old, record_unrelated]"

text \<open>
  A world where the paths under \<^verbatim>\<open>/work/game/\<close> and \<^verbatim>\<open>/work/docs/\<close> belong to a
  repository, the ledger cache is fresh, nothing was pulled recently, fetching fails
  with a git command error, the log of every path names the commits \<^verbatim>\<open>ccc\<close> and \<^verbatim>\<open>bbb\<close>,
  and every child process exits with 0: a diff prints one numstat line, anything else
  prints the branch \<^verbatim>\<open>origin/main\<close>.
\<close>

definition commit_ccc :: raw_commit where
  "commit_ccc = \<lparr>hexsha = ''ccc'', commit_working_dir = ''/work/game'', parents = [''bbb''],
                 commit_remote_url = ''origin-url'', committed_datetime = ''2024-05-02'',
                 author_name = ''me''\<rparr>"

definition process0 :: "fetch_event list \<Rightarrow> string list \<Rightarrow> error + (int \<times> string \<times> string)" where
  "process0 past args =
     (if ''diff'' \<in> set args
      then Inr (0, ''3'' @ [CHR 0x09] @ ''1'' @ [CHR 0x09] @ ''art/model.fbx'' @ [CHR 0x0A], [])
      else Inr (0, ''  origin/main'' @ [CHR 0x0A], []))"

definition world0 :: world where
  "world0 =
     \<lparr>now = 130, network = net0,
      stores = (\<lambda>wd. \<lparr>local_json = Some (ledger0, 100), sent = []\<rparr>),
      read_only = (\<lambda>f. True),
      fetched = [],
      find_repository =
        (\<lambda>p. if take 11 p = ''/work/game/'' then Inr repo0
             else if take 11 p = ''/work/docs/'' then Inr repo1
             else Inl InvalidGitRepositoryError),
      path_exists = (\<lambda>p. p = ''/work/game/art/model.fbx'' \<or> p = ''/work/docs/a.psd''),
      normpath = posix_normpath,
      pulled_within = (\<lambda>past wd seconds. False),
      fetch_outcome = (\<lambda>past ev. Some GitCommandError),
      git_log = (\<lambda>past wd args. Inr ([CHR 0x22] @ ''ccc'' @ [CHR 0x22, CHR 0x0A, CHR 0x22]
                                      @ ''bbb'' @ [CHR 0x22])),
      repo_commit = (\<lambda>past wd rev. if rev = ''ccc'' then Inr commit_ccc
                                    else Inl (OtherError ''BadName'')),
      run_process = process0\<rparr>"

text \<open>The same world, where every child process fails with exit code 129.\<close>

definition world_failing :: world where
  "world_failing =
     world0\<lparr>run_process := (\<lambda>past args. Inr (129, [], ''unknown option: --remote''))\<rparr>"


text \<open>
  The same world, where the ledger of every store holds one record: the user's own
  commit \<^verbatim>\<open>eee\<close> on \<^verbatim>\<open>art/model.fbx\<close>.
\<close>

definition world_mine :: world where
  "world_mine =
     world0\<lparr>stores := (\<lambda>wd. \<lparr>local_json = Some ([record_active], 100), sent = []\<rparr>)\<rparr>"

section \<open>Helper lemmas\<close>

lemma bind_Inl [simp]: "bind (Inl e) f = Inl e"
  by (simp add: bind_def)

lemma bind_Inr [simp]: "bind (Inr x) f = f x"
  by (simp add: bind_def)

lemma branch_names_of_raises:
  "branch_names_of result = Inl (if result = [] then IndexError else AttributeError)"
  by (cases result) (simp_all add: branch_names_of_def str_index0_def str_decode_def)

lemma changes_of_raises:
  "changes_of result = Inl (if result = [] then IndexError else AttributeError)"
  by (cases result) (simp_all add: changes_of_def str_index0_def str_decode_def)

lemma get_commits_branches_Nil: "get_commits_branches w [] remote = Inr []"
  by (simp add: get_commits_branches_def)

lemma get_commits_branches_Cons:
  "get_commits_branches w (commit # commits) remote =
     (case run_command w (branch_args commit remote) of
        Inl e \<Rightarrow> Inl e
      | Inr result \<Rightarrow> Inl (if result = [] then IndexError else AttributeError))"
  by (simp add: get_commits_branches_def branch_names_of_raises split: sum.splits)

lemma get_commits_branches_local_raises:
  "get_commits_branches w (commit # commits) False = Inl TypeError"
  by (simp add: get_commits_branches_Cons run_command_def branch_args_def)

lemma get_commits_branches_raises:
  "commits \<noteq> [] \<Longrightarrow> \<exists>e. get_commits_branches w commits remote = Inl e"
  by (cases commits) (auto simp: get_commits_branches_Cons split: sum.splits)

lemma gather_Cons_raises:
  "gather w tasks = Inr results \<Longrightarrow> results \<noteq> [] \<Longrightarrow> \<exists>e. changes_of_all results = Inl e"
  by (cases results) (auto simp: changes_of_raises)

lemma gather_length: "gather w tasks = Inr results \<Longrightarrow> length results = length tasks"
  by (induction tasks arbitrary: results) (auto simp: bind_def split: sum.splits if_splits)

lemma collect_changes_dicts:
  "collect_changes (map Dict ds) = (map (\<lambda>d. dget_default d ''changes'' (VStrs [])) ds, [])"
  by (induction ds) simp_all

lemma get_commit_changes_dicts:
  "get_commit_changes w (map Dict ds) = Inr (map (\<lambda>d. dget_default d ''changes'' (VStrs [])) ds)"
  by (simp add: get_commit_changes_def collect_changes_dicts)

lemma collect_changes_raw:
  "Raw c \<in> set commits \<Longrightarrow> snd (collect_changes commits) \<noteq> []"
  by (induction commits rule: collect_changes.induct) auto

lemma get_commit_changes_raw_raises:
  assumes "Raw c \<in> set commits"
  shows "\<exists>e. get_commit_changes w commits = Inl e"
proof (cases "gather w (snd (collect_changes commits))")
  case (Inl e)
  then show ?thesis by (simp add: get_commit_changes_def)
next
  case (Inr results)
  from gather_length [OF Inr] collect_changes_raw [OF assms] have "results \<noteq> []" by auto
  from gather_Cons_raises [OF Inr this] obtain e where "changes_of_all results = Inl e" ..
  with Inr show ?thesis by (simp add: get_commit_changes_def)
qed

lemma get_commits_dicts_dicts: "get_commits_dicts w (map Dict ds) = Inr ds"
proof -
  have "map commit_dict (zip (map Dict ds) (map f ds)) = ds" for f :: "dict \<Rightarrow> pyval"
    by (induction ds) simp_all
  then show ?thesis by (simp add: get_commits_dicts_def get_commit_changes_dicts)
qed

lemma get_commits_dicts_length:
  "get_commits_dicts w commits = Inr ds \<Longrightarrow> length ds = length commits"
proof (cases "\<exists>c. Raw c \<in> set commits")
  case True
  then obtain c where "Raw c \<in> set commits" ..
  from get_commit_changes_raw_raises [OF this, of w] show "get_commits_dicts w commits = Inr ds \<Longrightarrow> ?thesis"
    by (auto simp: get_commits_dicts_def)
next
  case False
  then have "\<exists>xs. commits = map Dict xs"
  proof (induction commits)
    case Nil then show ?case by simp
  next
    case (Cons a commits)
    then obtain xs where "commits = map Dict xs" by auto
    moreover from Cons.prems obtain d where "a = Dict d" by (cases a) auto
    ultimately have "a # commits = map Dict (d # xs)" by simp
    then show ?case by (rule exI)
  qed
  then obtain xs where "commits = map Dict xs" ..
  then show "get_commits_dicts w commits = Inr ds \<Longrightarrow> ?thesis" by (simp add: get_commits_dicts_dicts)
qed

lemma last_commits_loop_length:
  "fst (last_commits_loop w prune filenames) = Inr cs \<Longrightarrow> length cs = length filenames"
  by (induction filenames arbitrary: w cs) (auto simp: Let_def split: sum.splits)

lemma get_files_last_commits_Nil: "get_files_last_commits w [] prune = (Inr [], w)"
  by (simp add: get_files_last_commits_def get_commits_dicts_def get_commit_changes_def get_commits_branches_def)

lemma get_files_last_commits_raises:
  assumes "filenames \<noteq> []"
  shows "\<exists>e. fst (get_files_last_commits w filenames prune) = Inl e"
proof (cases "fst (last_commits_loop w prune filenames)")
  case (Inl e)
  then show ?thesis by (simp add: get_files_last_commits_def Let_def)
next
  case (Inr cs)
  from last_commits_loop_length [OF Inr] assms have cs: "cs \<noteq> []" by auto
  show ?thesis
  proof (cases "get_commits_dicts (snd (last_commits_loop w prune filenames)) cs")
    case (Inl e)
    with Inr show ?thesis by (simp add: get_files_last_commits_def Let_def)
  next
    case ds: (Inr ds)
    from get_commits_dicts_length [OF ds] cs obtain d ds' where "ds = d # ds'" by (cases ds) auto
    with Inr ds show ?thesis
      by (simp add: get_files_last_commits_def Let_def get_commits_branches_local_raises)
  qed
qed

lemma claim_files_raises:
  "filenames \<noteq> [] \<Longrightarrow> \<exists>e. fst (claim_files w filenames prune) = Inl e"
proof (cases filenames)
  case Nil then show "filenames \<noteq> [] \<Longrightarrow> ?thesis" by simp
next
  case (Cons f fs)
  from get_files_last_commits_raises [of "[f]" w prune]
  obtain e where "fst (get_files_last_commits w [f] prune) = Inl e" by auto
  with Cons show ?thesis by (simp add: Let_def)
qed






lemma same_files_refl [simp]: "same_files w w"
  by (simp add: same_files_def)

lemma same_files_trans: "same_files w w1 \<Longrightarrow> same_files w1 w2 \<Longrightarrow> same_files w w2"
  by (simp add: same_files_def)

lemma same_files_set_store [simp]: "same_files w (set_store r s w)"
  by (simp add: same_files_def set_store_def)

lemma same_files_self_heal: "same_files w (snd (self_heal w r tracked c))"
  by (simp add: self_heal_def Let_def split: sum.splits list.splits)

lemma same_files_fetch_remotes: "same_files w (snd (fetch_remotes w r prune))"
  by (simp add: fetch_remotes_def Let_def same_files_def split: option.splits)

lemma same_files_history: "same_files w (snd (history_last_commit w r filename prune))"
  using same_files_fetch_remotes [of w r prune]
  by (simp add: history_last_commit_def Let_def split: sum.splits option.splits)

lemma same_files_file_last_commit: "same_files w (snd (file_last_commit w prune filename))"
proof (cases "get_repository_safe w filename")
  case (Inl e)
  then show ?thesis by (simp add: file_last_commit_def)
next
  case (Inr ro)
  show ?thesis
  proof (cases ro)
    case None
    with Inr show ?thesis by (simp add: file_last_commit_def)
  next
    case (Some r)
    let ?res = "commits_get (network w) (now w) (repo_config r) (stores w (working_dir r))"
    let ?w1 = "set_store r (snd ?res) w"
    have w1: "same_files w ?w1" by simp
    have h1: "same_files w (snd (history_last_commit ?w1 r f prune))" for f
      by (rule same_files_trans [OF w1 same_files_history])
    have sh: "same_files w (snd (self_heal ?w1 r t c))" for t c
      by (rule same_files_trans [OF w1 same_files_self_heal])
    have h2: "same_files w (snd (history_last_commit (snd (self_heal ?w1 r t c)) r f prune))" for t c f
      by (rule same_files_trans [OF sh same_files_history])
    from Inr Some show ?thesis
      by (simp add: file_last_commit_def Let_def w1 h1 sh h2 split: sum.splits option.splits)
  qed
qed

lemma same_files_last_commits_loop: "same_files w (snd (last_commits_loop w prune filenames))"
proof (induction filenames arbitrary: w)
  case Nil
  then show ?case by simp
next
  case (Cons f fs)
  have a: "same_files w (snd (file_last_commit w prune f))" by (rule same_files_file_last_commit)
  have b: "same_files w (snd (last_commits_loop (snd (file_last_commit w prune f)) prune fs))"
    by (rule same_files_trans [OF a Cons.IH])
  show ?case by (simp add: Let_def a b split: sum.splits)
qed

lemma same_files_get_files_last_commits:
  "same_files w (snd (get_files_last_commits w filenames prune))"
  using same_files_last_commits_loop [of w prune filenames]
  by (simp add: get_files_last_commits_def Let_def split: sum.splits)

lemma permissions_enabled_same:
  "same_files w w' \<Longrightarrow> permissions_enabled w' f = permissions_enabled w f"
  by (simp add: permissions_enabled_def get_repository_safe_def same_files_def)

lemma claim_file_frame:
  "(\<not> path_exists w filename \<or> \<not> permissions_enabled w filename \<longrightarrow>
      snd (claim_file w filename last_commit) = w)
   \<and> (\<forall>f. f \<noteq> filename \<longrightarrow> read_only (snd (claim_file w filename last_commit)) f = read_only w f)
   \<and> path_exists (snd (claim_file w filename last_commit)) = path_exists w
   \<and> find_repository (snd (claim_file w filename last_commit)) = find_repository w"
  by (auto simp: claim_file_def Let_def permissions_enabled_def set_read_only_def
           split: sum.splits option.splits)

lemma claim_files_frame:
  "path_exists (snd (claim_files w filenames prune)) = path_exists w
   \<and> find_repository (snd (claim_files w filenames prune)) = find_repository w
   \<and> (\<forall>f. \<not> path_exists w f \<or> \<not> permissions_enabled w f \<longrightarrow>
          read_only (snd (claim_files w filenames prune)) f = read_only w f)"
proof (induction filenames arbitrary: w)
  case Nil
  then show ?case by simp
next
  case (Cons x xs)
  let ?found = "get_files_last_commits w [x] prune"
  let ?w1 = "snd ?found"
  have s1: "same_files w ?w1" by (rule same_files_get_files_last_commits)
  then have e1: "path_exists ?w1 = path_exists w" "find_repository ?w1 = find_repository w"
      "read_only ?w1 = read_only w"
    by (simp_all add: same_files_def)
  have p1: "permissions_enabled ?w1 f = permissions_enabled w f" for f
    by (rule permissions_enabled_same [OF s1])
  show ?case
  proof (cases "fst ?found")
    case (Inl e)
    then show ?thesis by (simp add: Let_def e1)
  next
    case (Inr last_commits)
    show ?thesis
    proof (cases last_commits)
      case Nil
      with Inr show ?thesis by (simp add: Let_def e1)
    next
      case found: (Cons last_commit rest)
      let ?claimed = "claim_file ?w1 x last_commit"
      let ?w2 = "snd ?claimed"
      note cf = claim_file_frame [of ?w1 x last_commit]
      from cf e1 have e2: "path_exists ?w2 = path_exists w" "find_repository ?w2 = find_repository w"
        by simp_all
      have r2: "read_only ?w2 f = read_only w f"
        if "\<not> path_exists w f \<or> \<not> permissions_enabled w f" for f
      proof (cases "f = x")
        case True
        with that e1 p1 cf have "?w2 = ?w1" by simp
        with e1 show ?thesis by simp
      next
        case False
        with cf e1 show ?thesis by simp
      qed
      have p2: "permissions_enabled ?w2 f = permissions_enabled w f" for f
        using e2 by (simp add: permissions_enabled_def get_repository_safe_def)
      note IH = Cons.IH [of ?w2]
      have final: "path_exists (snd (claim_files ?w2 xs prune)) = path_exists w
         \<and> find_repository (snd (claim_files ?w2 xs prune)) = find_repository w
         \<and> (\<forall>f. \<not> path_exists w f \<or> \<not> permissions_enabled w f \<longrightarrow>
              read_only (snd (claim_files ?w2 xs prune)) f = read_only w f)"
        using IH e2 p2 r2 by simp
      from Inr found show ?thesis
        using final e2 r2
        by (simp add: Let_def split: sum.splits)
    qed
  qed
qed

section \<open>The claims\<close>

subsection \<open>C6: reading the ledger\<close>

text \<open>
  C6. \<^verbatim>\<open>JsonbinStore.commits\<close> (getter) returns the locally cached ledger, with no
  request, whenever the cache file was modified within \<^verbatim>\<open>pull_threshold\<close> seconds.
  Otherwise it sends one GET; on status 200 it writes the fetched records to the cache
  and returns them; on any other status it raises \<^verbatim>\<open>StoreNotReachable\<close> and leaves the
  cache as it was.
\<close>

theorem commits_getter_cache_or_transport:
  fixes n :: net and s :: jsonbin and cfg :: config and now :: int
  shows
  "(modified_within (local_json s) now (get_pull_threshold cfg) \<longrightarrow>
      commits_get n now cfg s = (Inr (read_local_json s), s))
   \<and> (\<not> modified_within (local_json s) now (get_pull_threshold cfg) \<longrightarrow>
        sent (snd (commits_get n now cfg s))
          = sent s @ [GET (expand_headers n (store_headers cfg))]
        \<and> (\<forall>r. reply n (sent s) (GET (expand_headers n (store_headers cfg))) = Inr r \<longrightarrow>
             (status_code r = 200 \<longrightarrow>
                (\<forall>cs. json_record r = Inr cs \<longrightarrow>
                   fst (commits_get n now cfg s) = Inr cs
                   \<and> local_json (snd (commits_get n now cfg s)) = Some (cs, now)
                   \<and> read_local_json (snd (commits_get n now cfg s)) = cs))
             \<and> (status_code r \<noteq> 200 \<longrightarrow>
                   fst (commits_get n now cfg s)
                     = Inl (StoreNotReachable (Some (status_code r, resp_text r)))
                   \<and> local_json (snd (commits_get n now cfg s)) = local_json s)))"
  by (auto simp: commits_get_def Let_def read_local_json_def write_local_json_def
           split: sum.splits)

theorem commits_getter_cache_or_transport_witness:
  "modified_within (local_json store0) 130 (get_pull_threshold config0)
   \<and> commits_get net0 130 config0 store0 = (Inr [[(''sha'', VStr ''old'')]], store0)
   \<and> \<not> modified_within (local_json store0) 160 (get_pull_threshold config0)
   \<and> fst (commits_get net0 160 config0 store0) = Inr [[(''sha'', VStr ''abc'')]]
   \<and> local_json (snd (commits_get net0 160 config0 store0))
       = Some ([[(''sha'', VStr ''abc'')]], 160)
   \<and> sent (snd (commits_get net0 160 config0 store0)) = [GET [(''X-Master-Key'', ''$KEY'')]]
   \<and> fst (commits_get net0 160 config0 store1)
       = Inl (StoreNotReachable (Some (404, ''Bin not found'')))
   \<and> local_json (snd (commits_get net0 160 config0 store1)) = local_json store1"
proof -
  have fresh: "modified_within (local_json store0) 130 (get_pull_threshold config0)"
    by (simp add: modified_within_def store0_def get_pull_threshold_def config0_def)
  have stale0: "\<not> modified_within (local_json store0) 160 (get_pull_threshold config0)"
    by (simp add: modified_within_def store0_def get_pull_threshold_def config0_def)
  have stale1: "\<not> modified_within (local_json store1) 160 (get_pull_threshold config0)"
    by (simp add: modified_within_def store1_def get_pull_threshold_def config0_def)
  have hs: "expand_headers net0 (store_headers config0) = [(''X-Master-Key'', ''$KEY'')]"
    by (simp add: expand_headers_def net0_def config0_def)
  have r0: "reply net0 (sent store0) (GET [(''X-Master-Key'', ''$KEY'')])
              = Inr \<lparr>status_code = 200, resp_text = ''ok'',
                      json_record = Inr [[(''sha'', VStr ''abc'')]]\<rparr>"
    by (simp add: net0_def server0_def store0_def)
  have r1: "reply net0 (sent store1) (GET [(''X-Master-Key'', ''$KEY'')])
              = Inr \<lparr>status_code = 404, resp_text = ''Bin not found'',
                      json_record = Inl (OtherError ''KeyError'')\<rparr>"
    by (simp add: net0_def server0_def store1_def)
  have a: "commits_get net0 130 config0 store0 = (Inr [[(''sha'', VStr ''old'')]], store0)"
    using commits_getter_cache_or_transport [of store0 130 config0 net0] fresh
    by (simp add: read_local_json_def store0_def)
  have b: "fst (commits_get net0 160 config0 store0) = Inr [[(''sha'', VStr ''abc'')]]
           \<and> local_json (snd (commits_get net0 160 config0 store0))
               = Some ([[(''sha'', VStr ''abc'')]], 160)
           \<and> sent (snd (commits_get net0 160 config0 store0))
               = [GET [(''X-Master-Key'', ''$KEY'')]]"
    using commits_getter_cache_or_transport [of store0 160 config0 net0] stale0 r0
    by (simp add: hs store0_def)
  have c: "fst (commits_get net0 160 config0 store1)
             = Inl (StoreNotReachable (Some (404, ''Bin not found'')))
           \<and> local_json (snd (commits_get net0 160 config0 store1)) = local_json store1"
    using commits_getter_cache_or_transport [of store1 160 config0 net0] stale1 r1
    by (simp add: hs)
  from fresh stale0 a b c show ?thesis by simp
qed

subsection \<open>C7: writing the ledger, then reading it\<close>

text \<open>
  C7. The setter of \<^verbatim>\<open>JsonbinStore.commits\<close> sends one PUT with the ledger \<open>L\<close>. On status
  200 it writes \<open>L\<close> to the local cache: a read at any time \<open>t\<close> less than
  \<^verbatim>\<open>pull_threshold\<close> seconds later returns \<open>L\<close> unchanged and sends nothing, and a read
  at a time \<open>t\<close> not within the threshold sends a GET. On any other status the setter
  raises \<^verbatim>\<open>StoreNotReachable\<close> and the cache is not touched.
\<close>

theorem commits_setter_round_trip:
  fixes n n' :: net and s :: jsonbin and cfg :: config and L :: "dict list" and now :: int
  shows
  "sent (snd (commits_set n now cfg L s))
     = sent s @ [PUT (dset ''Content-Type'' ''application/json''
                       (expand_headers n (store_headers cfg))) L]
   \<and> (\<forall>r. reply n (sent s)
            (PUT (dset ''Content-Type'' ''application/json''
                   (expand_headers n (store_headers cfg))) L) = Inr r \<longrightarrow>
        (status_code r = 200 \<longrightarrow>
           fst (commits_set n now cfg L s) = Inr ()
           \<and> local_json (snd (commits_set n now cfg L s)) = Some (L, now)
           \<and> (\<forall>t. t - now < get_pull_threshold cfg \<longrightarrow>
                 commits_get n' t cfg (snd (commits_set n now cfg L s))
                   = (Inr L, snd (commits_set n now cfg L s)))
           \<and> (\<forall>t. \<not> t - now < get_pull_threshold cfg \<longrightarrow>
                 sent (snd (commits_get n' t cfg (snd (commits_set n now cfg L s))))
                   = sent (snd (commits_set n now cfg L s))
                     @ [GET (expand_headers n' (store_headers cfg))]))
        \<and> (status_code r \<noteq> 200 \<longrightarrow>
             fst (commits_set n now cfg L s) = Inl (StoreNotReachable None)
             \<and> local_json (snd (commits_set n now cfg L s)) = local_json s))"
  by (auto simp: commits_set_def commits_get_def Let_def read_local_json_def
        write_local_json_def modified_within_def split: sum.splits)

theorem commits_setter_round_trip_witness:
  "fst (commits_set net0 200 config0 [[(''sha'', VStr ''new'')]] store0) = Inr ()
   \<and> commits_get net0 259 config0
        (snd (commits_set net0 200 config0 [[(''sha'', VStr ''new'')]] store0))
       = (Inr [[(''sha'', VStr ''new'')]],
          snd (commits_set net0 200 config0 [[(''sha'', VStr ''new'')]] store0))
   \<and> sent (snd (commits_get net0 260 config0
              (snd (commits_set net0 200 config0 [[(''sha'', VStr ''new'')]] store0))))
       = sent (snd (commits_set net0 200 config0 [[(''sha'', VStr ''new'')]] store0))
         @ [GET [(''X-Master-Key'', ''$KEY'')]]
   \<and> fst (commits_set net0 200 config0 [[(''sha'', VStr ''a'')], [(''sha'', VStr ''b'')]] store0)
       = Inl (StoreNotReachable None)
   \<and> local_json (snd (commits_set net0 200 config0
                        [[(''sha'', VStr ''a'')], [(''sha'', VStr ''b'')]] store0))
       = local_json store0"
proof -
  have hs: "expand_headers net0 (store_headers config0) = [(''X-Master-Key'', ''$KEY'')]"
    by (simp add: expand_headers_def net0_def config0_def)
  have th: "get_pull_threshold config0 = 60"
    by (simp add: get_pull_threshold_def config0_def)
  have ok: "reply net0 (sent store0)
              (PUT (dset ''Content-Type'' ''application/json''
                     (expand_headers net0 (store_headers config0)))
                 [[(''sha'', VStr ''new'')]])
            = Inr \<lparr>status_code = 200, resp_text = ''ok'',
                    json_record = Inr [[(''sha'', VStr ''new'')]]\<rparr>"
    by (simp add: net0_def server0_def)
  have no: "reply net0 (sent store0)
              (PUT (dset ''Content-Type'' ''application/json''
                     (expand_headers net0 (store_headers config0)))
                 [[(''sha'', VStr ''a'')], [(''sha'', VStr ''b'')]])
            = Inr \<lparr>status_code = 401, resp_text = ''Unauthorized'',
                    json_record = Inl (OtherError ''KeyError'')\<rparr>"
    by (simp add: net0_def server0_def)
  have a: "fst (commits_set net0 200 config0 [[(''sha'', VStr ''new'')]] store0) = Inr ()
     \<and> commits_get net0 259 config0
          (snd (commits_set net0 200 config0 [[(''sha'', VStr ''new'')]] store0))
         = (Inr [[(''sha'', VStr ''new'')]],
            snd (commits_set net0 200 config0 [[(''sha'', VStr ''new'')]] store0))
     \<and> sent (snd (commits_get net0 260 config0
                (snd (commits_set net0 200 config0 [[(''sha'', VStr ''new'')]] store0))))
         = sent (snd (commits_set net0 200 config0 [[(''sha'', VStr ''new'')]] store0))
           @ [GET [(''X-Master-Key'', ''$KEY'')]]"
    using commits_setter_round_trip
            [of net0 200 config0 "[[(''sha'', VStr ''new'')]]" store0 net0] ok
    by (simp add: th hs)
  have b: "fst (commits_set net0 200 config0
                  [[(''sha'', VStr ''a'')], [(''sha'', VStr ''b'')]] store0)
             = Inl (StoreNotReachable None)
     \<and> local_json (snd (commits_set net0 200 config0
                          [[(''sha'', VStr ''a'')], [(''sha'', VStr ''b'')]] store0))
         = local_json store0"
    using commits_setter_round_trip
            [of net0 200 config0 "[[(''sha'', VStr ''a'')], [(''sha'', VStr ''b'')]]" store0 net0]
          no
    by simp
  from a b show ?thesis by simp
qed

subsection \<open>C1: the ledger candidates and the selected record\<close>



subsection \<open>C2: claiming a file whose spread is free\<close>

text \<open>
  C2 fails on the code. In a repository whose ledger holds, for \<^verbatim>\<open>art/model.fbx\<close>, the
  user's own commit \<^verbatim>\<open>eee\<close> of the active branch, the spread of the file's last commit
  is \<^verbatim>\<open>MINE_ACTIVE_BRANCH\<close>: only a \<^verbatim>\<open>MINE_*\<close> bit is set, the mask is free. The file
  exists and permission modification is enabled. Yet \<^verbatim>\<open>claim_files\<close> returns no record and
  does not make the file writable: the call of \<^verbatim>\<open>get_files_last_commits\<close> on line 258
  raises AttributeError (line 146 calls \<^verbatim>\<open>decode\<close> on a \<^verbatim>\<open>str\<close>), and the file stays
  read-only.
\<close>

theorem claim_files_free_spread_raises:
  "tracked_last_commit world_mine repo0 ''art/model.fbx'' [record_active]
     = Inr (Some record_active)
   \<and> get_commit_spread repo0 record_active = MINE_ACTIVE_BRANCH
   \<and> spec_free (get_commit_spread repo0 record_active)
   \<and> path_exists world_mine ''/work/game/art/model.fbx''
   \<and> permissions_enabled world_mine ''/work/game/art/model.fbx''
   \<and> read_only world_mine ''/work/game/art/model.fbx''
   \<and> fst (claim_files world_mine [''/work/game/art/model.fbx''] True) = Inl AttributeError
   \<and> read_only (snd (claim_files world_mine [''/work/game/art/model.fbx''] True))
        ''/work/game/art/model.fbx''"
proof -
  have a: "tracked_last_commit world_mine repo0 ''art/model.fbx'' [record_active]
             = Inr (Some record_active)"
    by code_simp
  have b: "get_commit_spread repo0 record_active = MINE_ACTIVE_BRANCH" by code_simp
  have c: "spec_free (get_commit_spread repo0 record_active)" by code_simp
  have d: "path_exists world_mine ''/work/game/art/model.fbx''" by code_simp
  have e: "permissions_enabled world_mine ''/work/game/art/model.fbx''" by code_simp
  have f: "read_only world_mine ''/work/game/art/model.fbx''" by code_simp
  have g: "fst (claim_files world_mine [''/work/game/art/model.fbx''] True)
             = Inl AttributeError"
    by code_simp
  have h: "read_only (snd (claim_files world_mine [''/work/game/art/model.fbx''] True))
             ''/work/game/art/model.fbx''"
    by code_simp
  from a b c d e f g h show ?thesis by simp
qed

subsection \<open>C10: when permissions are touched\<close>

text \<open>
  C10. For a file that does not exist on disk, or for which permission modification is
  not enabled (no repository, or \<^verbatim>\<open>modify_permissions\<close> not true), lines 260 to 275 of
  \<^verbatim>\<open>claim_files\<close> change nothing, whatever the last commit (claimable or not); and a call
  of \<^verbatim>\<open>claim_files\<close> on any list of files leaves the read-only flag of every such file as
  it was.
\<close>

theorem claim_files_permissions_frame:
  "(\<not> path_exists w filename \<or> \<not> permissions_enabled w filename \<longrightarrow>
      snd (claim_file w filename last_commit) = w)
   \<and> (\<forall>f. \<not> path_exists w f \<or> \<not> permissions_enabled w f \<longrightarrow>
          read_only (snd (claim_files w filenames prune)) f = read_only w f)"
  using claim_file_frame [of w filename last_commit] claim_files_frame [of w filenames prune]
  by blast

theorem claim_files_permissions_frame_witness:
  "\<not> path_exists world0 ''/work/game/art/gone.fbx''
   \<and> permissions_enabled world0 ''/work/game/art/gone.fbx''
   \<and> fst (claim_file world0 ''/work/game/art/gone.fbx'' record_active) = Inr []
   \<and> snd (claim_file world0 ''/work/game/art/gone.fbx'' record_active) = world0
   \<and> path_exists world0 ''/work/docs/a.psd''
   \<and> \<not> permissions_enabled world0 ''/work/docs/a.psd''
   \<and> fst (claim_file world0 ''/work/docs/a.psd'' record_active) = Inr []
   \<and> snd (claim_file world0 ''/work/docs/a.psd'' record_active) = world0
   \<and> read_only (snd (claim_files world0
                        [''/work/game/art/gone.fbx'', ''/work/docs/a.psd''] True))
        ''/work/docs/a.psd''
       = read_only world0 ''/work/docs/a.psd''"
proof -
  have gone: "\<not> path_exists world0 ''/work/game/art/gone.fbx''"
    by (simp add: world0_def)
  have en: "permissions_enabled world0 ''/work/game/art/gone.fbx''"
    by (simp add: permissions_enabled_def get_repository_safe_def world0_def repo0_def
          config0_def)
  have psd: "path_exists world0 ''/work/docs/a.psd''"
    by (simp add: world0_def)
  have dis: "\<not> permissions_enabled world0 ''/work/docs/a.psd''"
    by (simp add: permissions_enabled_def get_repository_safe_def world0_def repo1_def
          config0_def)
  have r1: "fst (claim_file world0 ''/work/game/art/gone.fbx'' record_active) = Inr []"
    by code_simp
  have r2: "fst (claim_file world0 ''/work/docs/a.psd'' record_active) = Inr []"
    by code_simp
  have a: "snd (claim_file world0 ''/work/game/art/gone.fbx'' record_active) = world0"
    using claim_files_permissions_frame [of world0 "''/work/game/art/gone.fbx''" record_active]
          gone
    by simp
  have b: "snd (claim_file world0 ''/work/docs/a.psd'' record_active) = world0"
    using claim_files_permissions_frame [of world0 "''/work/docs/a.psd''" record_active] dis
    by simp
  have c: "read_only (snd (claim_files world0
                        [''/work/game/art/gone.fbx'', ''/work/docs/a.psd''] True))
             ''/work/docs/a.psd''
           = read_only world0 ''/work/docs/a.psd''"
    using claim_files_permissions_frame
            [of world0 "''/work/docs/a.psd''" record_active
                "[''/work/game/art/gone.fbx'', ''/work/docs/a.psd'']" True] dis
    by simp
  from gone en psd dis r1 r2 a b c show ?thesis by simp
qed

subsection \<open>C4: get\_commits\_branches\<close>

text \<open>
  C4 as stated fails. Where the branch query of a commit exits with a non-zero code,
  \<^verbatim>\<open>get_commits_branches\<close> does not give an empty set for that commit: the exception of
  \<^verbatim>\<open>run_command\<close> reaches the caller.
\<close>

theorem failed_branch_query_counterexample:
  "run_command world_failing (branch_args record_abc True)
     = Inl (CommandFailed ''Command failed with error: unknown option: --remote'')
   \<and> get_commits_branches world_failing [record_abc] True
     = Inl (CommandFailed ''Command failed with error: unknown option: --remote'')
   \<and> get_commits_branches world_failing [record_abc] True \<noteq> Inr [[]]"
  by code_simp

text \<open>
  C4, amended. For the empty list of commits \<^verbatim>\<open>get_commits_branches\<close> returns the empty
  list; and when the branch query of the first commit fails (\<^verbatim>\<open>run_command\<close> raises),
  that error is raised to the caller, no empty set is put in its place.
\<close>

theorem get_commits_branches_empty_or_raises:
  "get_commits_branches w [] remote = Inr []
   \<and> (\<forall>e. run_command w (branch_args commit remote) = Inl e \<longrightarrow>
          get_commits_branches w (commit # commits) remote = Inl e)"
  by (simp add: get_commits_branches_Nil get_commits_branches_Cons)

theorem get_commits_branches_empty_or_raises_witness:
  "get_commits_branches world_failing [] True = Inr []
   \<and> run_command world_failing (branch_args record_abc True)
       = Inl (CommandFailed ''Command failed with error: unknown option: --remote'')
   \<and> get_commits_branches world_failing [record_abc, record_old] True
       = Inl (CommandFailed ''Command failed with error: unknown option: --remote'')"
proof -
  have failed: "run_command world_failing (branch_args record_abc True)
                  = Inl (CommandFailed ''Command failed with error: unknown option: --remote'')"
    by code_simp
  from get_commits_branches_empty_or_raises [of world_failing True record_abc "[record_old]"]
       failed
  show ?thesis by simp
qed

subsection \<open>C3: the self-heal of a pushed ledger record\<close>

text \<open>
  C3 fails on the code. The ledger record \<^verbatim>\<open>abc\<close> is the one selected for
  \<^verbatim>\<open>art/model.fbx\<close>, it has a \<^verbatim>\<open>sha\<close>, and the remote branch query of git succeeds and
  names the branch \<^verbatim>\<open>origin/main\<close>. Yet \<^verbatim>\<open>get_files_last_commits\<close> raises AttributeError
  (line 146 calls \<^verbatim>\<open>decode\<close> on a \<^verbatim>\<open>str\<close>), returns no record, sends no request, and the
  ledger still holds the record.
\<close>

theorem self_heal_not_reached:
  "tracked_last_commit world0 repo0 ''art/model.fbx'' ledger0 = Inr (Some record_abc)
   \<and> dhas record_abc ''sha''
   \<and> run_command world0 (branch_args record_abc True) = Inr ''origin/main''
   \<and> fst (get_files_last_commits world0 [''/work/game/art/model.fbx''] True)
       = Inl AttributeError
   \<and> stores (snd (get_files_last_commits world0 [''/work/game/art/model.fbx''] True))
        ''/work/game''
       = \<lparr>local_json = Some (ledger0, 100), sent = []\<rparr>"
  by code_simp

subsection \<open>C5: paths outside every repository\<close>

text \<open>
  C5 fails on the code. For \<^verbatim>\<open>/tmp/notes.txt\<close>, which is in no git repository, the loop
  of \<^verbatim>\<open>get_files_last_commits\<close> does put the empty record in the list, but the call then
  raises TypeError (line 140 passes the list \<^verbatim>\<open>[]\<close> as an argument of the command); a
  batch of that path and a managed one raises as well.
\<close>

theorem unmanaged_path_raises:
  "find_repository world0 ''/tmp/notes.txt'' = Inl InvalidGitRepositoryError
   \<and> fst (file_last_commit world0 True ''/tmp/notes.txt'') = Inr (Dict [])
   \<and> fst (get_files_last_commits world0 [''/tmp/notes.txt''] True) = Inl TypeError
   \<and> fst (get_files_last_commits world0 [''/tmp/notes.txt'', ''/work/game/art/new.fbx''] True)
       = Inl AttributeError"
proof -
  have a: "find_repository world0 ''/tmp/notes.txt'' = Inl InvalidGitRepositoryError"
    by (simp add: world0_def)
  have b: "fst (file_last_commit world0 True ''/tmp/notes.txt'') = Inr (Dict [])"
    by code_simp
  have c: "fst (get_files_last_commits world0 [''/tmp/notes.txt''] True) = Inl TypeError"
    by code_simp
  have d: "fst (get_files_last_commits world0
                  [''/tmp/notes.txt'', ''/work/game/art/new.fbx''] True) = Inl AttributeError"
    by code_simp
  from a b c d show ?thesis by simp
qed

subsection \<open>C8: the commit found in the history\<close>

text \<open>
  C8 fails on the code. For \<^verbatim>\<open>art/new.fbx\<close> the ledger has no candidate; the loop of
  \<^verbatim>\<open>get_files_last_commits\<close> attempts the fetch (the repository was not pulled within
  the threshold), passes over its git command error and finds the newest commit
  \<^verbatim>\<open>ccc\<close> of the log. The call then raises AttributeError (line 206 calls \<^verbatim>\<open>decode\<close> on a
  \<^verbatim>\<open>str\<close>): the commit is not returned.
\<close>

theorem history_commit_not_returned:
  "tracked_last_commit world0 repo0 ''art/new.fbx'' ledger0 = Inr None
   \<and> fst (file_last_commit world0 True ''/work/game/art/new.fbx'') = Inr (Raw commit_ccc)
   \<and> fetched (snd (file_last_commit world0 True ''/work/game/art/new.fbx''))
       = [FetchOrigin ''/work/game'' True]
   \<and> fst (get_files_last_commits world0 [''/work/game/art/new.fbx''] True)
       = Inl AttributeError"
  by code_simp

subsection \<open>C9: get\_commit\_changes\<close>

text \<open>
  C9 fails on the code. For a commit object whose numstat diff succeeds and prints one
  line, \<^verbatim>\<open>get_commit_changes\<close> raises AttributeError (line 206) instead of returning the
  path column, alone or after a dictionary.
\<close>

theorem raw_commit_changes_raise:
  "run_command world0 (diff_args commit_ccc)
     = Inr (''3'' @ [CHR 0x09] @ ''1'' @ [CHR 0x09] @ ''art/model.fbx'')
   \<and> get_commit_changes world0 [Raw commit_ccc] = Inl AttributeError
   \<and> get_commit_changes world0 [Dict record_abc, Raw commit_ccc] = Inl AttributeError"
  by code_simp

end
